theory Spec2Isabelle
  imports Main "HOL-Library.Word"
begin

section \<open>Go library functions the plugin calls\<close>

text \<open>
  Go strings are byte strings; they are modelled as \<open>string\<close> (a list of 8-bit characters).
  \<open>strings.TrimSpace\<close> and \<open>strings.ToLower\<close> are modelled on ASCII, which is what
  kubectl prints for object names and what the prompts compare against.
\<close>

definition strings_HasPrefix :: "string \<Rightarrow> string \<Rightarrow> bool" where
  "strings_HasPrefix s p = (take (length p) s = p)"

fun strings_Contains :: "string \<Rightarrow> string \<Rightarrow> bool" where
  "strings_Contains [] sub = (sub = [])"
| "strings_Contains (c # s) sub = (strings_HasPrefix (c # s) sub \<or> strings_Contains s sub)"

text \<open>\<open>strings.Split(s, "\n")\<close>: the pieces between line feeds, one more than the line feeds.\<close>

fun strings_Split_lines :: "string \<Rightarrow> string list" where
  "strings_Split_lines [] = [[]]"
| "strings_Split_lines (c # s) =
     (if c = CHR 0x0A then [] # strings_Split_lines s
      else (case strings_Split_lines s of
              [] \<Rightarrow> [[c]]
            | l # ls \<Rightarrow> (c # l) # ls))"

definition isSpace :: "char \<Rightarrow> bool" where
  "isSpace c = (c = CHR 0x09 \<or> c = CHR 0x0A \<or> c = CHR 0x0B \<or> c = CHR 0x0C \<or> c = CHR 0x0D \<or> c = CHR '' '')"

definition strings_TrimSpace :: "string \<Rightarrow> string" where
  "strings_TrimSpace s = rev (dropWhile isSpace (rev (dropWhile isSpace s)))"



text \<open>The decimal digit of a number below ten.\<close>

definition digit :: "nat \<Rightarrow> char" where
  "digit d = ''0123456789'' ! (d mod 10)"

text \<open>\<open>fmt.Sprintf("%d", n)\<close> for a non-negative \<open>n\<close>.\<close>

fun itoa :: "nat \<Rightarrow> string" where
  "itoa n = (if n < 10 then [digit n] else itoa (n div 10) @ [digit (n mod 10)])"

text \<open>\<open>fmt.Sprintf("%04d", n)\<close> for \<open>n\<close> below 10000, the range of \<open>rand.Intn(10000)\<close>.\<close>

definition fmt_04d :: "nat \<Rightarrow> string" where
  "fmt_04d n = [digit (n div 1000 mod 10), digit (n div 100 mod 10), digit (n div 10 mod 10), digit (n mod 10)]"

section \<open>Errors (errors.go)\<close>

datatype ErrorType =
    ErrorTypePodNotFound
  | ErrorTypePermission
  | ErrorTypeNetwork
  | ErrorTypeKubectl
  | ErrorTypeValidation
  | ErrorTypeTimeout
  | ErrorTypeClusterAccess
  | ErrorTypeResourceLimit

text \<open>
  A Go \<open>error\<close> value is one of: an \<open>*exec.ExitError\<close> (the command ran and exited non-zero;
  it carries the exit code and its message, "exit status N"), any other error known by its
  message (a command that could not start, \<open>fmt.Errorf\<close>, a decoder's error), or the plugin's
  \<open>*DetailedError\<close> with its fields Type, Message, Suggestion, Command, OriginalErr.
\<close>

datatype error =
    ExitError int string
  | OtherError string
  | DetailedError ErrorType string string string "error option"

fun error_Error :: "error \<Rightarrow> string" where
  "error_Error (ExitError code msg) = msg"
| "error_Error (OtherError msg) = msg"
| "error_Error (DetailedError ty message suggestion command original) =
     [CHR 0xE2, CHR 0x9D, CHR 0x8C] @ '' '' @ message @ [CHR 0x0A]
     @ (if suggestion \<noteq> [] then
          [CHR 0x0A, CHR 0xF0, CHR 0x9F, CHR 0x92, CHR 0xA1] @ '' Suggestion: '' @ suggestion @ [CHR 0x0A]
        else [])
     @ (if command \<noteq> [] then
          [CHR 0x0A, CHR 0xF0, CHR 0x9F, CHR 0x94, CHR 0xA7] @ '' Try: '' @ command @ [CHR 0x0A]
        else [])
     @ (case original of
          None \<Rightarrow> []
        | Some e \<Rightarrow>
            [CHR 0x0A, CHR 0xF0, CHR 0x9F, CHR 0x94, CHR 0x8D] @ '' Details: '' @ error_Error e @ [CHR 0x0A])"

definition NewDetailedError :: "ErrorType \<Rightarrow> string \<Rightarrow> error" where
  "NewDetailedError errorType message = DetailedError errorType message [] [] None"

text \<open>The three \<open>With...\<close> methods are defined on \<open>*DetailedError\<close> only; the second equations are never reached.\<close>

fun WithSuggestion :: "error \<Rightarrow> string \<Rightarrow> error" where
  "WithSuggestion (DetailedError ty m s c orig) suggestion = DetailedError ty m suggestion c orig"
| "WithSuggestion e suggestion = e"

fun WithCommand :: "error \<Rightarrow> string \<Rightarrow> error" where
  "WithCommand (DetailedError ty m s c orig) command = DetailedError ty m s command orig"
| "WithCommand e command = e"

fun WithOriginalError :: "error \<Rightarrow> error \<Rightarrow> error" where
  "WithOriginalError (DetailedError ty m s c orig) err = DetailedError ty m s c (Some err)"
| "WithOriginalError e err = e"

fun errorTypeOf :: "error \<Rightarrow> ErrorType option" where
  "errorTypeOf (DetailedError ty m s c orig) = Some ty"
| "errorTypeOf e = None"

definition NewPodNotFoundError :: "string \<Rightarrow> string \<Rightarrow> error" where
  "NewPodNotFoundError podName namespace =
     WithCommand
       (WithSuggestion
          (NewDetailedError ErrorTypePodNotFound
             (''Pod '' @ [CHR 0x27] @ podName @ [CHR 0x27] @ '' not found in namespace '' @ [CHR 0x27] @ namespace @ [CHR 0x27]))
          ''Check if the pod name is correct and the pod exists'')
       (''kubectl get pods -n '' @ namespace)"

definition NewPermissionError :: "string \<Rightarrow> error" where
  "NewPermissionError operation =
     WithCommand
       (WithSuggestion
          (NewDetailedError ErrorTypePermission (''Permission denied for operation: '' @ operation))
          ''Check your RBAC permissions or contact your cluster administrator'')
       ''kubectl auth can-i create pods''"

definition NewClusterAccessError :: error where
  "NewClusterAccessError =
     WithCommand
       (WithSuggestion
          (NewDetailedError ErrorTypeClusterAccess ''Cannot connect to Kubernetes cluster'')
          ''Check your kubeconfig and cluster connectivity'')
       ''kubectl cluster-info''"

definition NewValidationError :: "string \<Rightarrow> string \<Rightarrow> string \<Rightarrow> error" where
  "NewValidationError field val reason =
     WithSuggestion
       (NewDetailedError ErrorTypeValidation
          (''Invalid '' @ field @ '': '' @ [CHR 0x27] @ val @ [CHR 0x27] @ '' - '' @ reason))
       ''Check the parameter value and try again''"

definition NewTimeoutError :: "string \<Rightarrow> string \<Rightarrow> error" where
  "NewTimeoutError operation timeout =
     WithSuggestion
       (NewDetailedError ErrorTypeTimeout
          (''Operation '' @ [CHR 0x27] @ operation @ [CHR 0x27] @ '' timed out after '' @ timeout))
       ''The operation may take longer than expected. Try increasing the timeout or check cluster resources''"

text \<open>\<open>WrapKubectlError\<close> is only ever called with a non-nil error by the code below.\<close>

definition WrapKubectlError :: "error \<Rightarrow> string \<Rightarrow> error" where
  "WrapKubectlError err operation =
     (let errStr = error_Error err in
      if strings_Contains errStr ''not found'' then
        WithOriginalError (NewDetailedError ErrorTypePodNotFound (''Resource not found during '' @ operation)) err
      else if strings_Contains errStr ''forbidden'' then
        WithOriginalError (NewPermissionError operation) err
      else if strings_Contains errStr ''connection refused'' then
        WithOriginalError NewClusterAccessError err
      else
        WithOriginalError (NewDetailedError ErrorTypeKubectl (''Failed to '' @ operation)) err)"

section \<open>Kubernetes objects (the fields of corev1 the plugin reads or writes)\<close>

type_synonym SeccompProfileType = string

definition SeccompProfileTypeRuntimeDefault :: SeccompProfileType where
  "SeccompProfileTypeRuntimeDefault = ''RuntimeDefault''"

definition SeccompProfileTypeUnconfined :: SeccompProfileType where
  "SeccompProfileTypeUnconfined = ''Unconfined''"

record Capabilities =
  cap_Add :: "string list"
  cap_Drop :: "string list"

text \<open>A nil pointer is \<open>None\<close>. \<open>int64\<close> user ids are never computed with, so they are \<open>int\<close>.\<close>

record SecurityContext =
  sc_Capabilities :: "Capabilities option"
  sc_Privileged :: "bool option"
  sc_RunAsUser :: "int option"
  sc_RunAsNonRoot :: "bool option"
  sc_AllowPrivilegeEscalation :: "bool option"
  sc_SeccompProfile :: "SeccompProfileType option"

record PodSecurityContext =
  psc_RunAsUser :: "int option"
  psc_RunAsNonRoot :: "bool option"
  psc_SeccompProfile :: "SeccompProfileType option"

definition getSecurityContextForProfile :: "string \<Rightarrow> SecurityContext \<times> PodSecurityContext" where
  "getSecurityContextForProfile profileName =
     (let containerContext =
            \<lparr> sc_Capabilities = None, sc_Privileged = None, sc_RunAsUser = None,
              sc_RunAsNonRoot = None, sc_AllowPrivilegeEscalation = None,
              sc_SeccompProfile = Some SeccompProfileTypeRuntimeDefault \<rparr>;
          podContext =
            \<lparr> psc_RunAsUser = None, psc_RunAsNonRoot = None,
              psc_SeccompProfile = Some SeccompProfileTypeRuntimeDefault \<rparr>
      in
      if profileName = ''restricted'' then
        (containerContext
           \<lparr> sc_AllowPrivilegeEscalation := Some False,
             sc_Capabilities := Some \<lparr> cap_Add = [], cap_Drop = [''ALL''] \<rparr>,
             sc_RunAsNonRoot := Some True,
             sc_RunAsUser := Some 1000,
             sc_SeccompProfile := Some SeccompProfileTypeRuntimeDefault \<rparr>,
         podContext
           \<lparr> psc_RunAsNonRoot := Some True,
             psc_RunAsUser := Some 1000,
             psc_SeccompProfile := Some SeccompProfileTypeRuntimeDefault \<rparr>)
      else if profileName = ''baseline'' then
        (containerContext
           \<lparr> sc_AllowPrivilegeEscalation := Some False,
             sc_Capabilities := Some \<lparr> cap_Add = [], cap_Drop = [''ALL''] \<rparr>,
             sc_SeccompProfile := Some SeccompProfileTypeRuntimeDefault \<rparr>,
         podContext \<lparr> psc_SeccompProfile := Some SeccompProfileTypeRuntimeDefault \<rparr>)
      else if profileName = ''privileged'' then
        (containerContext
           \<lparr> sc_AllowPrivilegeEscalation := Some True,
             sc_Privileged := Some True,
             sc_Capabilities := Some \<lparr> cap_Add = [''ALL''], cap_Drop = [] \<rparr>,
             sc_SeccompProfile := Some SeccompProfileTypeUnconfined \<rparr>,
         podContext \<lparr> psc_SeccompProfile := Some SeccompProfileTypeUnconfined \<rparr>)
      else (containerContext, podContext))"

section \<open>Pods, kubectl commands and the environment\<close>

text \<open>
  Go maps (labels, selectors, resource lists) are partial functions; a nil map, where the
  code can tell it from an empty one, is \<open>None\<close> of an option. Quantities are kept in the
  canonical text \<open>resource.MustParse\<close> yields.
\<close>

record Probe =
  probe_ExecCommand :: "string list"
  probe_InitialDelaySeconds :: int
  probe_PeriodSeconds :: int

record Container =
  ctr_Name :: string
  ctr_Image :: string
  ctr_Command :: "string list"
  ctr_Stdin :: bool
  ctr_TTY :: bool
  ctr_SecurityContext :: "SecurityContext option"
  ctr_Limits :: "string \<rightharpoonup> string"
  ctr_Requests :: "string \<rightharpoonup> string"
  ctr_LivenessProbe :: "Probe option"
  ctr_ReadinessProbe :: "Probe option"

text \<open>Wall-clock instants are nanosecond counts; a \<open>time.Duration\<close> is a signed 64-bit count of nanoseconds.\<close>

type_synonym Time = int
type_synonym Duration = "64 word"

record Pod =
  pod_APIVersion :: string
  pod_Kind :: string
  pod_Name :: string
  pod_Namespace :: string
  pod_Labels :: "string \<rightharpoonup> string"
  pod_CreationTimestamp :: Time
  pod_AutomountServiceAccountToken :: "bool option"
  pod_TerminationGracePeriodSeconds :: "int option"
  pod_SecurityContext :: "PodSecurityContext option"
  pod_ShareProcessNamespace :: "bool option"
  pod_NodeName :: string
  pod_Containers :: "Container list"
  pod_Phase :: string

text \<open>
  One \<open>ExecCommand("kubectl", args...)\<close>: its arguments and, for \<open>kubectl apply -f -\<close>, the
  manifest piped to it (\<open>yaml.Marshal\<close> of a typed pod cannot fail, so the manifest stands
  for its YAML text).
\<close>

record command =
  cmd_args :: "string list"
  cmd_stdin :: "Pod option"

text \<open>
  What the process does to the outside, in order: the kubectl commands it runs, the signal
  handler it arms, what it prints on standard output and the log lines that report the
  result of a deletion (the other, informational log lines are left out).
\<close>

datatype event =
    Exec command
  | SignalHandler string
  | Print string
  | Log string

text \<open>The outcome of running a command: the error of \<open>Run\<close>/\<open>Output\<close> (nil is \<open>None\<close>) and the two streams.\<close>

record cmd_result =
  res_err :: "error option"
  res_stdout :: string
  res_stderr :: string

datatype tmp_outcome = CreateFailed error | WriteFailed string error | CloseFailed string error | TmpReady string

text \<open>
  Everything outside the plugin. The cluster answers a command as a function of all that
  was done before it, so that polling can see the pod change. The other fields are the
  inputs of one invocation: the operator's answers, the clock, the random source, the
  temporary file of \<open>createPodCopy\<close>, and the library decoders (\<open>json.Unmarshal\<close> at the
  three types the code uses, where JSON \<open>null\<close> makes a map nil; \<open>time.ParseDuration\<close>;
  \<open>resource.MustParse\<close>, which panics where \<open>resource_Parse\<close> is \<open>None\<close>).
  \<open>calculateAge\<close> (list.go) formats an age through floating point for display only and is
  taken from the environment as well. \<open>stdin_ReadString\<close> is the line \<open>askForNewPod\<close> reads
  (\<open>None\<close> when reading fails), \<open>stdin_Scanln\<close> what \<open>fmt.Scanln\<close> leaves in the response of
  \<open>askForConfirmation\<close> (empty when it fails), \<open>clock_HHMMSS\<close> the time of day as
  \<open>generateUniqueName\<close> formats it, and \<open>rand_Intn\<close> the random source, which
  \<open>generateUniqueName\<close> reduces to the range of \<open>rand.Intn(10000)\<close>.
\<close>

record env =
  kubectl :: "event list \<Rightarrow> command \<Rightarrow> cmd_result"
  stdin_ReadString :: "string option"
  stdin_Scanln :: string
  time_Now :: Time
  clock_HHMMSS :: string
  rand_Intn :: nat
  os_CreateTemp :: tmp_outcome
  json_Unmarshal_map :: "string \<Rightarrow> error + (string \<rightharpoonup> string) option"
  json_Unmarshal_Pod :: "string \<Rightarrow> error + Pod"
  json_Unmarshal_PodList :: "string \<Rightarrow> error + Pod list"
  time_ParseDuration :: "string \<Rightarrow> error + Duration"
  resource_Parse :: "string \<Rightarrow> string option"
  calculateAge :: "Time \<Rightarrow> string"

definition kubectl_cmd :: "string list \<Rightarrow> command" where
  "kubectl_cmd args = \<lparr> cmd_args = args, cmd_stdin = None \<rparr>"

definition ExecCommand_Run :: "env \<Rightarrow> command \<Rightarrow> event list \<Rightarrow> cmd_result \<times> event list" where
  "ExecCommand_Run e c tr = (kubectl e tr c, tr @ [Exec c])"

text \<open>A function either returns, or the process exits (\<open>os.Exit\<close>), or it panics.\<close>

datatype 'a outcome = Returned 'a | Exited int | Panicked

section \<open>Debug configuration (operations.go)\<close>

text \<open>\<open>DebugOperation\<close> is an int; \<open>OperationUnknown\<close> stands for every value but the three named ones.\<close>

datatype DebugOperation = OperationStandalone | OperationCopyPod | OperationAddContainer | OperationUnknown

record DebugConfig =
  Operation :: DebugOperation
  Namespace :: string
  PodName :: string
  Image :: string
  Interactive :: bool
  TTY :: bool
  RemoveAfter :: bool
  Force :: bool
  CopyPod :: bool
  Profile :: string
  CPURequest :: string
  MemoryLimit :: string
  MemoryRequest :: string

text \<open>The global flags arrive as the fields of the argument; the operation is determined from them.\<close>

definition NewDebugConfigFromFlags :: "DebugConfig \<Rightarrow> DebugConfig" where
  "NewDebugConfigFromFlags flags =
     (if PodName flags = [] then flags \<lparr> Operation := OperationStandalone \<rparr>
      else if CopyPod flags then flags \<lparr> Operation := OperationCopyPod \<rparr>
      else flags \<lparr> Operation := OperationAddContainer \<rparr>)"

section \<open>Helpers of the debug command (debug.go)\<close>

definition maxAttempts :: nat where
  "maxAttempts = 30"

fun firstNonEmptyLine :: "string list \<Rightarrow> string" where
  "firstNonEmptyLine [] = []"
| "firstNonEmptyLine (line # rest) =
     (let name = strings_TrimSpace line in if name \<noteq> [] then name else firstNonEmptyLine rest)"

text \<open>The command \<open>findExistingDebugPod\<close> runs.\<close>

definition findExistingDebugPod_cmd :: "DebugConfig \<Rightarrow> command" where
  "findExistingDebugPod_cmd config =
     (let labelSelector = ''debug-tool/type=debug-pod'' @
            (if PodName config \<noteq> [] then '',debug-tool/target='' @ PodName config else [])
      in kubectl_cmd [''get'', ''pod'', ''-n'', Namespace config, ''-l'', labelSelector,
                      ''--no-headers'', ''-o'', ''custom-columns=:metadata.name''])"

definition findExistingDebugPod :: "env \<Rightarrow> DebugConfig \<Rightarrow> event list \<Rightarrow> (error + string) \<times> event list" where
  "findExistingDebugPod e config tr =
     (let (r, tr1) = ExecCommand_Run e (findExistingDebugPod_cmd config) tr
      in case res_err r of
           Some err \<Rightarrow>
             if strings_Contains (res_stderr r) ''No resources found'' then (Inr [], tr1)
             else (Inl (OtherError (''error checking for existing pods: '' @ error_Error err @ '' - '' @ res_stderr r)), tr1)
         | None \<Rightarrow> (Inr (firstNonEmptyLine (strings_Split_lines (res_stdout r))), tr1))"

text \<open>The four lines \<open>askForNewPod\<close> prints before it reads the answer.\<close>

definition askForNewPod_prompt :: "DebugConfig \<Rightarrow> string \<Rightarrow> event list" where
  "askForNewPod_prompt config existingPod =
     [Print (''Debug pod '' @ [CHR 0x27] @ existingPod @ [CHR 0x27] @ '' already exists in namespace ''
              @ [CHR 0x27] @ Namespace config @ [CHR 0x27] @ ''. Do you want to:'' @ [CHR 0x0A]),
      Print (''[1] Use existing pod'' @ [CHR 0x0A]),
      Print (''[2] Create new pod'' @ [CHR 0x0A]),
      Print ''Choose (1/2) [1]: '']"

text \<open>
  \<open>askForNewPod\<close>: True means "create a new pod". \<open>stdin_ReadString\<close> is the line read up to
  the line feed, or \<open>None\<close> when reading fails.
\<close>

definition askForNewPod :: "env \<Rightarrow> DebugConfig \<Rightarrow> string \<Rightarrow> event list \<Rightarrow> bool \<times> event list" where
  "askForNewPod e config existingPod tr =
     (if Force config then (True, tr)
      else
        (let tr1 = tr @ askForNewPod_prompt config existingPod
         in case stdin_ReadString e of
              None \<Rightarrow> (False, tr1)
            | Some response \<Rightarrow> (strings_TrimSpace response = ''2'', tr1)))"

definition generateUniqueName :: "env \<Rightarrow> DebugConfig \<Rightarrow> string" where
  "generateUniqueName e config =
     (let timestamp = clock_HHMMSS e;
          randomStr = fmt_04d (rand_Intn e mod 10000)
      in if PodName config = [] then ''debug-'' @ timestamp @ ''-'' @ randomStr
         else ''debug-'' @ PodName config @ ''-'' @ timestamp @ ''-'' @ randomStr)"

text \<open>\<open>kubectl delete pod NAME -n NAMESPACE\<close>, the command of every deletion in the plugin.\<close>

definition deletePod_cmd :: "string \<Rightarrow> string \<Rightarrow> command" where
  "deletePod_cmd podName ns = kubectl_cmd [''delete'', ''pod'', podName, ''-n'', ns]"

definition attachToPod_cmd :: "DebugConfig \<Rightarrow> string \<Rightarrow> command" where
  "attachToPod_cmd config debugPodName =
     kubectl_cmd [''exec'', ''-it'', debugPodName, ''-n'', Namespace config, ''--'', ''sh'']"

definition attachToPod :: "env \<Rightarrow> DebugConfig \<Rightarrow> string \<Rightarrow> event list \<Rightarrow> error option \<times> event list" where
  "attachToPod e config debugPodName tr =
     (let (r, tr1) = ExecCommand_Run e (attachToPod_cmd config debugPodName) tr
      in (res_err r, tr1))"

definition deletePod :: "env \<Rightarrow> DebugConfig \<Rightarrow> string \<Rightarrow> event list \<Rightarrow> error option \<times> event list" where
  "deletePod e config debugPodName tr =
     (let (r, tr1) = ExecCommand_Run e (deletePod_cmd debugPodName (Namespace config)) tr
      in (res_err r, tr1))"

definition basicLabels :: "DebugConfig \<Rightarrow> (string \<rightharpoonup> string)" where
  "basicLabels config = [''debug-tool/type'' \<mapsto> ''debug-pod'', ''debug-tool/target'' \<mapsto> PodName config]"

definition getTargetPodLabels ::
  "env \<Rightarrow> DebugConfig \<Rightarrow> event list \<Rightarrow> (error + (string \<rightharpoonup> string) option) \<times> event list" where
  "getTargetPodLabels e config tr =
     (let (r, tr1) = ExecCommand_Run e
            (kubectl_cmd [''get'', ''pod'', PodName config, ''-n'', Namespace config, ''-o'', ''jsonpath={.metadata.labels}'']) tr
      in case res_err r of
           Some err \<Rightarrow>
             (Inl (OtherError (''error getting target pod labels: '' @ error_Error err @ '' - '' @ res_stderr r)), tr1)
         | None \<Rightarrow>
             if res_stdout r = [] then (Inr (Some (basicLabels config)), tr1)
             else (case json_Unmarshal_map e (res_stdout r) of
                     Inl err \<Rightarrow> (Inr (Some (basicLabels config)), tr1)
                   | Inr labels \<Rightarrow> (Inr labels, tr1)))"

definition podPhaseCmd :: "DebugConfig \<Rightarrow> string \<Rightarrow> command" where
  "podPhaseCmd config debugPodName =
     kubectl_cmd [''get'', ''pod'', debugPodName, ''-n'', Namespace config, ''-o'', ''jsonpath={.status.phase}'']"

text \<open>The loop of \<open>waitForPod\<close>, by the number of attempts left (\<open>maxAttempts - i\<close>); the sleep between attempts has no effect on the trace.\<close>

fun waitForPod_loop :: "env \<Rightarrow> DebugConfig \<Rightarrow> string \<Rightarrow> nat \<Rightarrow> event list \<Rightarrow> error option \<times> event list" where
  "waitForPod_loop e config debugPodName 0 tr =
     (Some (OtherError (''pod did not become ready within '' @ itoa maxAttempts @ '' seconds'')), tr)"
| "waitForPod_loop e config debugPodName (Suc left) tr =
     (let (r, tr1) = ExecCommand_Run e (podPhaseCmd config debugPodName) tr
      in if res_err r = None \<and> res_stdout r = ''Running'' then (None, tr1)
         else waitForPod_loop e config debugPodName left tr1)"

definition waitForPod :: "env \<Rightarrow> DebugConfig \<Rightarrow> string \<Rightarrow> event list \<Rightarrow> error option \<times> event list" where
  "waitForPod e config debugPodName tr = waitForPod_loop e config debugPodName maxAttempts tr"

text \<open>\<open>for key := range deploymentSelectors { delete(labels, key) }\<close>: the order of deletion does not matter.\<close>

definition deleteKeys :: "(string \<rightharpoonup> string) \<Rightarrow> (string \<rightharpoonup> string) \<Rightarrow> (string \<rightharpoonup> string)" where
  "deleteKeys labels selectors = (\<lambda>key. case selectors key of None \<Rightarrow> labels key | Some v \<Rightarrow> None)"

definition getDeploymentSelectors ::
  "env \<Rightarrow> DebugConfig \<Rightarrow> event list \<Rightarrow> (error + (string \<rightharpoonup> string) option) \<times> event list" where
  "getDeploymentSelectors e config tr =
     (let (r1, tr1) = ExecCommand_Run e
            (kubectl_cmd [''get'', ''pod'', PodName config, ''-n'', Namespace config, ''-o'',
               ''jsonpath={.metadata.ownerReferences[?(@.kind=='' @ [CHR 0x27] @ ''ReplicaSet'' @ [CHR 0x27] @ '')].name}'']) tr
      in case res_err r1 of
           Some err \<Rightarrow> (Inl (OtherError (''error getting pod owner reference: '' @ error_Error err)), tr1)
         | None \<Rightarrow>
            (let replicaSetName = strings_TrimSpace (res_stdout r1) in
             if replicaSetName = [] then (Inr None, tr1)
             else
              (let (r2, tr2) = ExecCommand_Run e
                     (kubectl_cmd [''get'', ''rs'', replicaSetName, ''-n'', Namespace config, ''-o'',
                        ''jsonpath={.metadata.ownerReferences[?(@.kind=='' @ [CHR 0x27] @ ''Deployment'' @ [CHR 0x27] @ '')].name}'']) tr1
               in case res_err r2 of
                    Some err \<Rightarrow> (Inl (OtherError (''error getting replicaset owner reference: '' @ error_Error err)), tr2)
                  | None \<Rightarrow>
                     (let deploymentName = strings_TrimSpace (res_stdout r2) in
                      if deploymentName = [] then (Inr None, tr2)
                      else
                       (let (r3, tr3) = ExecCommand_Run e
                              (kubectl_cmd [''get'', ''deployment'', deploymentName, ''-n'', Namespace config, ''-o'',
                                 ''jsonpath={.spec.selector.matchLabels}'']) tr2
                        in case res_err r3 of
                             Some err \<Rightarrow> (Inl (OtherError (''error getting deployment selector: '' @ error_Error err)), tr3)
                           | None \<Rightarrow>
                              (case json_Unmarshal_map e (res_stdout r3) of
                                 Inl err \<Rightarrow> (Inl (OtherError (''error parsing deployment selector: '' @ error_Error err)), tr3)
                               | Inr selectors \<Rightarrow> (Inr selectors, tr3)))))))"

definition getTargetPodSecurityContext ::
  "env \<Rightarrow> DebugConfig \<Rightarrow> event list \<Rightarrow> (error + PodSecurityContext option) \<times> event list" where
  "getTargetPodSecurityContext e config tr =
     (let (r, tr1) = ExecCommand_Run e
            (kubectl_cmd [''get'', ''pod'', PodName config, ''-n'', Namespace config, ''-o'', ''json'']) tr
      in case res_err r of
           Some err \<Rightarrow> (Inl (OtherError (''error getting pod info: '' @ error_Error err)), tr1)
         | None \<Rightarrow>
            (case json_Unmarshal_Pod e (res_stdout r) of
               Inl err \<Rightarrow> (Inl (OtherError (''error parsing pod JSON: '' @ error_Error err)), tr1)
             | Inr pod \<Rightarrow> (Inr (pod_SecurityContext pod), tr1)))"

definition debuggerProbe :: Probe where
  "debuggerProbe = \<lparr> probe_ExecCommand = [''/bin/true''], probe_InitialDelaySeconds = 5, probe_PeriodSeconds = 10 \<rparr>"

text \<open>
  The pod object \<open>createDebugPod\<close> marshals (its \<open>debugPod\<close> with the container added),
  from the name, the pod security context in force, the process-namespace flag, the final
  labels and the three parsed quantities.
\<close>

definition debugPodManifest ::
  "DebugConfig \<Rightarrow> string \<Rightarrow> PodSecurityContext \<Rightarrow> bool option \<Rightarrow> (string \<rightharpoonup> string)
   \<Rightarrow> string \<Rightarrow> string \<Rightarrow> string \<Rightarrow> Pod" where
  "debugPodManifest config debugPodName podSecurityContext shareProcessNamespace labels
       memoryLimit cpuRequest memoryRequest =
     (let profileContext = fst (getSecurityContextForProfile (Profile config));
          containerContext =
            (if psc_RunAsUser podSecurityContext \<noteq> None then
               profileContext \<lparr> sc_RunAsUser := psc_RunAsUser podSecurityContext,
                                sc_RunAsNonRoot := psc_RunAsNonRoot podSecurityContext \<rparr>
             else profileContext);
          command = (if Interactive config \<and> TTY config then [''bash''] else [''sleep'', ''infinity''])
      in \<lparr> pod_APIVersion = ''v1'',
           pod_Kind = ''Pod'',
           pod_Name = debugPodName,
           pod_Namespace = Namespace config,
           pod_Labels = labels,
           pod_CreationTimestamp = 0,
           pod_AutomountServiceAccountToken = Some False,
           pod_TerminationGracePeriodSeconds = Some 0,
           pod_SecurityContext = Some podSecurityContext,
           pod_ShareProcessNamespace = shareProcessNamespace,
           pod_NodeName = [],
           pod_Containers =
             [\<lparr> ctr_Name = ''debugger'',
                ctr_Image = Image config,
                ctr_Command = command,
                ctr_Stdin = True,
                ctr_TTY = True,
                ctr_SecurityContext = Some containerContext,
                ctr_Limits = [''memory'' \<mapsto> memoryLimit],
                ctr_Requests = [''cpu'' \<mapsto> cpuRequest, ''memory'' \<mapsto> memoryRequest],
                ctr_LivenessProbe = Some debuggerProbe,
                ctr_ReadinessProbe = Some debuggerProbe \<rparr>],
           pod_Phase = [] \<rparr>)"

definition apply_cmd :: "Pod \<Rightarrow> command" where
  "apply_cmd pod = \<lparr> cmd_args = [''apply'', ''-f'', ''-''], cmd_stdin = Some pod \<rparr>"

text \<open>
  \<open>createDebugPod\<close> from "If no security context is set from target pod" to its end, given
  what the part before has computed: the name, the pod security context taken from the
  target (if any), the process-namespace flag and the labels. \<open>resource.MustParse\<close> panics
  on a quantity it cannot parse, before anything is applied.
\<close>

definition createDebugPod_build ::
  "env \<Rightarrow> DebugConfig \<Rightarrow> string \<Rightarrow> PodSecurityContext option \<Rightarrow> bool option \<Rightarrow> (string \<rightharpoonup> string)
   \<Rightarrow> event list \<Rightarrow> (error + string) outcome \<times> event list" where
  "createDebugPod_build e config debugPodName targetContext shareProcessNamespace labels tr =
     (let podSecurityContext =
            (case targetContext of
               None \<Rightarrow> snd (getSecurityContextForProfile (Profile config))
             | Some sc \<Rightarrow> sc);
          labels1 = labels(''debug-tool/type'' \<mapsto> ''debug-pod'')
      in case resource_Parse e (MemoryLimit config) of
           None \<Rightarrow> (Panicked, tr)
         | Some memoryLimit \<Rightarrow>
        (case resource_Parse e (CPURequest config) of
           None \<Rightarrow> (Panicked, tr)
         | Some cpuRequest \<Rightarrow>
        (case resource_Parse e (MemoryRequest config) of
           None \<Rightarrow> (Panicked, tr)
         | Some memoryRequest \<Rightarrow>
            (let debugPod = debugPodManifest config debugPodName podSecurityContext shareProcessNamespace
                              labels1 memoryLimit cpuRequest memoryRequest;
                 (r, tr1) = ExecCommand_Run e (apply_cmd debugPod) tr
             in case res_err r of
                  Some err \<Rightarrow>
                    (Returned (Inl (OtherError (''error creating debug pod: '' @ error_Error err @ '' - '' @ res_stderr r))), tr1)
                | None \<Rightarrow> (Returned (Inr debugPodName), tr1)))))"

text \<open>
  \<open>createDebugPod\<close>. With a target pod it reads the target's security context, its labels
  and its deployment's selector first. Assigning the target label into a nil label map
  (the target's labels decoded from JSON \<open>null\<close>) panics.
\<close>

definition createDebugPod :: "env \<Rightarrow> DebugConfig \<Rightarrow> event list \<Rightarrow> (error + string) outcome \<times> event list" where
  "createDebugPod e config tr =
     (let debugPodName = generateUniqueName e config;
          labels = [''debug-tool/type'' \<mapsto> ''debug-pod'']
      in if PodName config \<noteq> [] then
           (let (sec, tr1) = getTargetPodSecurityContext e config tr;
                targetContext =
                  (case sec of
                     Inl err \<Rightarrow> None
                   | Inr None \<Rightarrow> None
                   | Inr (Some secContext) \<Rightarrow> if psc_RunAsUser secContext \<noteq> None then Some secContext else None);
                (targetLabels, tr2) = getTargetPodLabels e config tr1;
                labels1 = (case targetLabels of Inl err \<Rightarrow> Some labels | Inr l \<Rightarrow> l)
            in case labels1 of
                 None \<Rightarrow> (Panicked, tr2)
               | Some labels2 \<Rightarrow>
                  (let labels3 = labels2(''debug-tool/target'' \<mapsto> PodName config);
                       (deploymentSelectors, tr3) = getDeploymentSelectors e config tr2;
                       labels4 =
                         (case deploymentSelectors of
                            Inl err \<Rightarrow> labels3
                          | Inr None \<Rightarrow> labels3
                          | Inr (Some selectors) \<Rightarrow> deleteKeys labels3 selectors)
                   in createDebugPod_build e config debugPodName targetContext (Some True) labels4 tr3))
         else createDebugPod_build e config debugPodName None None labels tr)"

definition getTargetContainerName :: "env \<Rightarrow> DebugConfig \<Rightarrow> event list \<Rightarrow> (error + string) \<times> event list" where
  "getTargetContainerName e config tr =
     (let (r, tr1) = ExecCommand_Run e
            (kubectl_cmd [''get'', ''pod'', PodName config, ''-n'', Namespace config, ''-o'',
                          ''jsonpath={.spec.containers[0].name}'']) tr
      in case res_err r of
           Some err \<Rightarrow> (Inl (OtherError (''error getting container name: '' @ error_Error err)), tr1)
         | None \<Rightarrow> (Inr (strings_TrimSpace (res_stdout r)), tr1))"

text \<open>
  \<open>setupSignalHandler\<close> arms a goroutine; when it fires is not modelled, only that it is
  armed. \<open>signalHandler_body\<close> is what the goroutine does once a signal arrives.
\<close>

definition setupSignalHandler :: "string \<Rightarrow> event list \<Rightarrow> event list" where
  "setupSignalHandler debugPodName tr = tr @ [SignalHandler debugPodName]"


section \<open>The three operations (operations.go)\<close>

text \<open>The deferred function of \<open>executeStandalone\<close>, registered only when \<open>RemoveAfter\<close> is set.\<close>

definition executeStandalone_deferred :: "env \<Rightarrow> DebugConfig \<Rightarrow> string \<Rightarrow> event list \<Rightarrow> event list" where
  "executeStandalone_deferred e config debugPodName tr =
     (if RemoveAfter config then
        (let (r, tr1) = ExecCommand_Run e (deletePod_cmd debugPodName (Namespace config)) tr
         in case res_err r of
              Some err \<Rightarrow> tr1 @ [Log (''Warning: Failed to delete debug pod: '' @ error_Error err)]
            | None \<Rightarrow> tr1 @ [Log ''Debug pod deleted successfully''])
      else tr)"

text \<open>
  \<open>executeStandalone\<close>. The timeout return comes before the \<open>defer\<close> statement, so nothing is
  deferred there; \<open>os.Exit\<close> after a failed attach skips the deferred function as well.
\<close>

definition executeStandalone :: "env \<Rightarrow> DebugConfig \<Rightarrow> event list \<Rightarrow> error option outcome \<times> event list" where
  "executeStandalone e config tr =
     (case createDebugPod e config tr of
        (Panicked, tr1) \<Rightarrow> (Panicked, tr1)
      | (Exited code, tr1) \<Rightarrow> (Exited code, tr1)
      | (Returned (Inl err), tr1) \<Rightarrow> (Returned (Some (WrapKubectlError err ''create debug pod'')), tr1)
      | (Returned (Inr debugPodName), tr1) \<Rightarrow>
         (let tr2 = (if RemoveAfter config then setupSignalHandler debugPodName tr1 else tr1) in
          if Interactive config \<and> TTY config then
            (case waitForPod e config debugPodName tr2 of
               (Some err, tr3) \<Rightarrow>
                 (Returned (Some (WithOriginalError (NewTimeoutError ''pod ready'' ''30s'') err)), tr3)
             | (None, tr3) \<Rightarrow>
                (let (r, tr4) = ExecCommand_Run e
                       (kubectl_cmd [''attach'', ''-it'', debugPodName, ''-n'', Namespace config]) tr3
                 in case res_err r of
                      Some (ExitError code msg) \<Rightarrow> (Exited code, tr4)
                    | Some err \<Rightarrow>
                        (Returned (Some (WrapKubectlError err ''attach to pod'')),
                         executeStandalone_deferred e config debugPodName tr4)
                    | None \<Rightarrow> (Returned None, executeStandalone_deferred e config debugPodName tr4)))
          else (Returned None, executeStandalone_deferred e config debugPodName tr2)))"

definition verifyTargetPod_cmd :: "DebugConfig \<Rightarrow> command" where
  "verifyTargetPod_cmd config = kubectl_cmd [''get'', ''pod'', PodName config, ''-n'', Namespace config]"

definition verifyTargetPod :: "env \<Rightarrow> DebugConfig \<Rightarrow> event list \<Rightarrow> error option \<times> event list" where
  "verifyTargetPod e config tr =
     (let (r, tr1) = ExecCommand_Run e (verifyTargetPod_cmd config) tr
      in if res_err r \<noteq> None then (Some (NewPodNotFoundError (PodName config) (Namespace config)), tr1)
         else (None, tr1))"

definition useExistingPod :: "env \<Rightarrow> DebugConfig \<Rightarrow> string \<Rightarrow> event list \<Rightarrow> error option \<times> event list" where
  "useExistingPod e config existingPod tr =
     (if Interactive config \<and> TTY config then
        (case attachToPod e config existingPod tr of
           (Some err, tr1) \<Rightarrow> (Some (WrapKubectlError err ''attach to existing pod''), tr1)
         | (None, tr1) \<Rightarrow>
            if RemoveAfter config then
              (case deletePod e config existingPod tr1 of
                 (Some err, tr2) \<Rightarrow> (Some (WrapKubectlError err ''delete pod''), tr2)
               | (None, tr2) \<Rightarrow> (None, tr2))
            else (None, tr1))
      else (None, tr))"

text \<open>
  \<open>createPodCopy\<close>. The resource settings go into a temporary YAML file whose creation,
  writing and closing the environment decides; the file's name is passed to
  \<open>kubectl debug --custom\<close>. The copy itself is made by \<open>kubectl debug --copy-to\<close>.
\<close>

definition createPodCopy :: "env \<Rightarrow> DebugConfig \<Rightarrow> event list \<Rightarrow> error option \<times> event list" where
  "createPodCopy e config tr =
     (let debugPodName = generateUniqueName e config;
          tr1 = (if RemoveAfter config then setupSignalHandler debugPodName tr else tr)
      in case os_CreateTemp e of
           CreateFailed err \<Rightarrow>
             (Some (WithOriginalError (NewDetailedError ErrorTypeValidation ''failed to create temporary file'') err), tr1)
         | WriteFailed tmpName err \<Rightarrow>
             (Some (WithOriginalError (NewDetailedError ErrorTypeValidation ''failed to write custom debug configuration'') err), tr1)
         | CloseFailed tmpName err \<Rightarrow>
             (Some (WithOriginalError (NewDetailedError ErrorTypeValidation ''failed to close temporary file'') err), tr1)
         | TmpReady tmpName \<Rightarrow>
            (let (sec, tr2) = getTargetPodSecurityContext e config tr1;
                 hasRunAsUser =
                   (case sec of
                      Inl err \<Rightarrow> False
                    | Inr None \<Rightarrow> False
                    | Inr (Some secContext) \<Rightarrow> psc_RunAsUser secContext \<noteq> None);
                 args = [''debug'', PodName config, ''-n'', Namespace config, ''--image'', Image config,
                         ''--share-processes'', ''--copy-to='' @ debugPodName, ''--custom='' @ tmpName]
                   @ (if hasRunAsUser \<or> Profile config \<noteq> [] then
                        [''--profile='' @ (if Profile config = [] then ''general'' else Profile config)]
                      else [])
                   @ (if Interactive config then [''-i''] else [])
                   @ (if TTY config then [''-t''] else [])
                   @ (if Interactive config \<and> TTY config then [''--''] else []);
                 (r, tr3) = ExecCommand_Run e (kubectl_cmd args) tr2
             in case res_err r of
                  Some err \<Rightarrow> (Some (WrapKubectlError err ''create debug pod copy''), tr3)
                | None \<Rightarrow>
                   if RemoveAfter config \<and> Interactive config \<and> TTY config then
                     (case deletePod e config debugPodName tr3 of
                        (Some err, tr4) \<Rightarrow> (Some (WrapKubectlError err ''delete debug pod''), tr4)
                      | (None, tr4) \<Rightarrow> (None, tr4))
                   else (None, tr3)))"

definition executeCopyPod :: "env \<Rightarrow> DebugConfig \<Rightarrow> event list \<Rightarrow> error option \<times> event list" where
  "executeCopyPod e config tr =
     (case verifyTargetPod e config tr of
        (Some err, tr1) \<Rightarrow> (Some err, tr1)
      | (None, tr1) \<Rightarrow>
         if \<not> Force config then
           (case findExistingDebugPod e config tr1 of
              (Inl err, tr2) \<Rightarrow> (Some (WrapKubectlError err ''check existing debug pods''), tr2)
            | (Inr existingPod, tr2) \<Rightarrow>
               if existingPod \<noteq> [] then
                 (case askForNewPod e config existingPod tr2 of
                    (False, tr3) \<Rightarrow> useExistingPod e config existingPod tr3
                  | (True, tr3) \<Rightarrow> createPodCopy e config tr3)
               else createPodCopy e config tr2)
         else createPodCopy e config tr1)"

definition executeAddContainer :: "env \<Rightarrow> DebugConfig \<Rightarrow> event list \<Rightarrow> error option \<times> event list" where
  "executeAddContainer e config tr =
     (case verifyTargetPod e config tr of
        (Some err, tr1) \<Rightarrow> (Some err, tr1)
      | (None, tr1) \<Rightarrow>
         (case getTargetContainerName e config tr1 of
            (Inl err, tr2) \<Rightarrow> (Some (WrapKubectlError err ''get target container name''), tr2)
          | (Inr containerName, tr2) \<Rightarrow>
             (let args = [''debug'', PodName config, ''-n'', Namespace config, ''--image'', Image config,
                          ''--target='' @ containerName]
                    @ (if Profile config \<noteq> [] then [''--profile='' @ Profile config] else [''--profile=general''])
                    @ (if Interactive config then [''-i''] else [])
                    @ (if TTY config then [''-t''] else [])
                    @ (if Interactive config \<and> TTY config then [''--''] else []);
                  (r, tr3) = ExecCommand_Run e (kubectl_cmd args) tr2
              in (res_err r, tr3))))"

definition Execute :: "env \<Rightarrow> DebugConfig \<Rightarrow> event list \<Rightarrow> error option outcome \<times> event list" where
  "Execute e config tr =
     (case Operation config of
        OperationStandalone \<Rightarrow> executeStandalone e config tr
      | OperationCopyPod \<Rightarrow> (let (err, tr1) = executeCopyPod e config tr in (Returned err, tr1))
      | OperationAddContainer \<Rightarrow> (let (err, tr1) = executeAddContainer e config tr in (Returned err, tr1))
      | OperationUnknown \<Rightarrow> (Returned (Some (NewValidationError ''operation'' ''unknown'' ''invalid debug operation'')), tr))"

section \<open>Listing and cleaning (list.go, clean.go)\<close>

record DebugPodInfo =
  info_Name :: string
  info_Namespace :: string
  info_TargetPod :: string
  info_Status :: string
  info_Age :: string
  info_CreationTimestamp :: Time
  info_Image :: string
  info_Node :: string

text \<open>The package-level flag variables read by \<open>list\<close> and \<open>clean\<close>.\<close>

record globals =
  namespace :: string
  listAllNamespaces :: bool
  cleanAllNamespaces :: bool
  cleanForce :: bool
  cleanOlderThan :: string

definition toDebugPodInfo :: "env \<Rightarrow> Pod \<Rightarrow> DebugPodInfo" where
  "toDebugPodInfo e pod =
     \<lparr> info_Name = pod_Name pod,
       info_Namespace = pod_Namespace pod,
       info_TargetPod = (case pod_Labels pod ''debug-tool/target'' of Some targetPod \<Rightarrow> targetPod | None \<Rightarrow> []),
       info_Status = pod_Phase pod,
       info_Age = calculateAge e (pod_CreationTimestamp pod),
       info_CreationTimestamp = pod_CreationTimestamp pod,
       info_Image = (case pod_Containers pod of [] \<Rightarrow> [] | c # cs \<Rightarrow> ctr_Image c),
       info_Node = pod_NodeName pod \<rparr>"

text \<open>A nil slice and an empty slice are both the empty list.\<close>

definition getDebugPods_cmd :: "globals \<Rightarrow> command" where
  "getDebugPods_cmd g =
     kubectl_cmd
       (if listAllNamespaces g
        then [''get'', ''pods'', ''--all-namespaces'', ''-l'', ''debug-tool/type=debug-pod'', ''-o'', ''json'']
        else [''get'', ''pods'', ''-n'', namespace g, ''-l'', ''debug-tool/type=debug-pod'', ''-o'', ''json''])"

definition getDebugPods :: "env \<Rightarrow> globals \<Rightarrow> event list \<Rightarrow> (error + DebugPodInfo list) \<times> event list" where
  "getDebugPods e g tr =
     (let (r, tr1) = ExecCommand_Run e (getDebugPods_cmd g) tr
      in case res_err r of
           Some err \<Rightarrow>
             if strings_Contains (res_stderr r) ''No resources found'' then (Inr [], tr1)
             else (Inl (OtherError (''error listing pods: '' @ error_Error err @ '' - '' @ res_stderr r)), tr1)
         | None \<Rightarrow>
            (case json_Unmarshal_PodList e (res_stdout r) of
               Inl err \<Rightarrow> (Inl (OtherError (''error parsing pod list: '' @ error_Error err)), tr1)
             | Inr items \<Rightarrow> (Inr (map (toDebugPodInfo e) items), tr1)))"










section \<open>Reading a trace\<close>

text \<open>The events a run has added to the trace it started from.\<close>

definition issued :: "event list \<Rightarrow> event list \<Rightarrow> event list" where
  "issued tr tr' = drop (length tr) tr'"

text \<open>The kubectl subcommand of an event, if it is a command: \<open>get\<close>, \<open>apply\<close>, \<open>delete\<close>, \<open>debug\<close>, \<open>attach\<close>, \<open>exec\<close>.\<close>

fun subcommand :: "event \<Rightarrow> string option" where
  "subcommand (Exec c) = (case cmd_args c of [] \<Rightarrow> None | a # as \<Rightarrow> Some a)"
| "subcommand ev = None"

definition isDelete :: "event \<Rightarrow> bool" where
  "isDelete ev = (subcommand ev = Some ''delete'')"

text \<open>An event that creates something in the cluster: \<open>kubectl apply\<close> of a manifest or \<open>kubectl debug\<close>.\<close>

definition isCreate :: "event \<Rightarrow> bool" where
  "isCreate ev = (subcommand ev = Some ''apply'' \<or> subcommand ev = Some ''debug'')"

text \<open>A read-only query: \<open>kubectl get ...\<close> with nothing piped in.\<close>

fun isGet :: "event \<Rightarrow> bool" where
  "isGet (Exec c) = (cmd_stdin c = None \<and> (case cmd_args c of [] \<Rightarrow> False | a # as \<Rightarrow> a = ''get''))"
| "isGet ev = False"


text \<open>The pod manifests a list of events hands to kubectl.\<close>

fun manifests :: "event list \<Rightarrow> Pod list" where
  "manifests [] = []"
| "manifests (Exec c # evs) = (case cmd_stdin c of None \<Rightarrow> manifests evs | Some pod \<Rightarrow> pod # manifests evs)"
| "manifests (ev # evs) = manifests evs"

section \<open>Concrete scenarios\<close>

text \<open>
  A quiet environment: every command succeeds and prints nothing, the operator types
  nothing, the decoders reject their input, and \<open>time.ParseDuration\<close> knows "1h" and the
  minimum duration. The scenarios below change single fields of it.
\<close>

definition quietResult :: cmd_result where
  "quietResult = \<lparr> res_err = None, res_stdout = [], res_stderr = [] \<rparr>"

definition quietEnv :: env where
  "quietEnv =
     \<lparr> kubectl = (\<lambda>tr c. quietResult),
       stdin_ReadString = None,
       stdin_Scanln = [],
       time_Now = 36000000000000,
       clock_HHMMSS = ''120000'',
       rand_Intn = 42,
       os_CreateTemp = TmpReady ''/tmp/debug-custom-1.yaml'',
       json_Unmarshal_map = (\<lambda>s. Inl (OtherError ''unexpected end of JSON input'')),
       json_Unmarshal_Pod = (\<lambda>s. Inl (OtherError ''unexpected end of JSON input'')),
       json_Unmarshal_PodList = (\<lambda>s. Inl (OtherError ''unexpected end of JSON input'')),
       time_ParseDuration =
         (\<lambda>s. if s = ''1h'' then Inr 3600000000000
              else if s = ''-9223372036854775808ns'' then Inr (- (2 ^ 63))
              else Inl (OtherError ''time: invalid duration'')),
       resource_Parse = (\<lambda>s. Some s),
       calculateAge = (\<lambda>t. []) \<rparr>"


definition exampleGlobals :: globals where
  "exampleGlobals =
     \<lparr> namespace = ''default'', listAllNamespaces = False, cleanAllNamespaces = False,
       cleanForce = True, cleanOlderThan = [] \<rparr>"

definition exampleConfig :: DebugConfig where
  "exampleConfig =
     \<lparr> Operation = OperationStandalone, Namespace = ''default'', PodName = [], Image = ''debug:latest'',
       Interactive = False, TTY = False, RemoveAfter = False, Force = False, CopyPod = False,
       Profile = ''general'', CPURequest = ''100m'', MemoryLimit = ''128Mi'', MemoryRequest = ''128Mi'' \<rparr>"

text \<open>
  A cluster with a target pod \<open>web\<close> in namespace \<open>default\<close>, owned through a replica set
  by a deployment whose selector is \<open>{app: x}\<close>; the pod has the labels
  \<open>{app: x, pod-template-hash: abc}\<close>, one container \<open>app\<close> and no security context. Two
  debug pods labelled for this target exist already. The operator answers "1". The JSON
  texts kubectl prints are abbreviated; the decoders of this environment read them.
\<close>

definition targetPod :: Pod where
  "targetPod =
     \<lparr> pod_APIVersion = ''v1'', pod_Kind = ''Pod'', pod_Name = ''web'', pod_Namespace = ''default'',
       pod_Labels = [''app'' \<mapsto> ''x'', ''pod-template-hash'' \<mapsto> ''abc''],
       pod_CreationTimestamp = 0,
       pod_AutomountServiceAccountToken = None, pod_TerminationGracePeriodSeconds = None,
       pod_SecurityContext = None, pod_ShareProcessNamespace = None, pod_NodeName = ''node-1'',
       pod_Containers =
         [\<lparr> ctr_Name = ''app'', ctr_Image = ''web:1'', ctr_Command = [], ctr_Stdin = False, ctr_TTY = False,
            ctr_SecurityContext = None, ctr_Limits = Map.empty, ctr_Requests = Map.empty,
            ctr_LivenessProbe = None, ctr_ReadinessProbe = None \<rparr>],
       pod_Phase = ''Running'' \<rparr>"

definition clusterAnswer :: "string list \<Rightarrow> string" where
  "clusterAnswer args =
     (if args = [''get'', ''pod'', ''-n'', ''default'', ''-l'', ''debug-tool/type=debug-pod,debug-tool/target=web'',
                 ''--no-headers'', ''-o'', ''custom-columns=:metadata.name'']
      then ''debug-web-1'' @ [CHR 0x0A] @ ''debug-web-2'' @ [CHR 0x0A]
      else if args = [''get'', ''pod'', ''web'', ''-n'', ''default'', ''-o'', ''jsonpath={.metadata.labels}'']
      then ''{app:x,pod-template-hash:abc}''
      else if args = [''get'', ''pod'', ''web'', ''-n'', ''default'', ''-o'',
                      ''jsonpath={.metadata.ownerReferences[?(@.kind=='' @ [CHR 0x27] @ ''ReplicaSet'' @ [CHR 0x27] @ '')].name}'']
      then ''web-5d4f''
      else if args = [''get'', ''rs'', ''web-5d4f'', ''-n'', ''default'', ''-o'',
                      ''jsonpath={.metadata.ownerReferences[?(@.kind=='' @ [CHR 0x27] @ ''Deployment'' @ [CHR 0x27] @ '')].name}'']
      then ''web''
      else if args = [''get'', ''deployment'', ''web'', ''-n'', ''default'', ''-o'', ''jsonpath={.spec.selector.matchLabels}'']
      then ''{app:x}''
      else if args = [''get'', ''pod'', ''web'', ''-n'', ''default'', ''-o'', ''jsonpath={.spec.containers[0].name}'']
      then ''app''
      else if args = [''get'', ''pod'', ''web'', ''-n'', ''default'', ''-o'', ''json'']
      then ''{kind:Pod,name:web}''
      else [])"

definition clusterEnv :: env where
  "clusterEnv =
     quietEnv
       \<lparr> kubectl := (\<lambda>tr c. \<lparr> res_err = None, res_stdout = clusterAnswer (cmd_args c), res_stderr = [] \<rparr>),
         stdin_ReadString := Some (''1'' @ [CHR 0x0A]),
         json_Unmarshal_map :=
           (\<lambda>s. if s = ''{app:x,pod-template-hash:abc}''
                then Inr (Some [''app'' \<mapsto> ''x'', ''pod-template-hash'' \<mapsto> ''abc''])
                else if s = ''{app:x}'' then Inr (Some [''app'' \<mapsto> ''x''])
                else Inl (OtherError ''unexpected end of JSON input'')),
         json_Unmarshal_Pod :=
           (\<lambda>s. if s = ''{kind:Pod,name:web}'' then Inr targetPod
                else Inl (OtherError ''unexpected end of JSON input'')) \<rparr>"

definition webConfig :: DebugConfig where
  "webConfig = exampleConfig \<lparr> PodName := ''web'', Interactive := True, TTY := True \<rparr>"



section \<open>Security profile resolution\<close>

text \<open>
  C5. For every profile name outside the four recognised values (restricted, baseline,
  general, privileged) the resolution returns exactly the general policy: a container
  context and a pod context that carry only the runtime-default seccomp type, with no
  capability change, no run-as-user, no run-as-non-root, no privileged flag and no
  privilege-escalation setting.
\<close>

theorem resolve_unrecognized_is_general:
  assumes "profileName \<notin> {''restricted'', ''baseline'', ''general'', ''privileged''}"
  shows "getSecurityContextForProfile profileName = getSecurityContextForProfile ''general''
       \<and> getSecurityContextForProfile profileName =
           (\<lparr> sc_Capabilities = None, sc_Privileged = None, sc_RunAsUser = None,
              sc_RunAsNonRoot = None, sc_AllowPrivilegeEscalation = None,
              sc_SeccompProfile = Some ''RuntimeDefault'' \<rparr>,
            \<lparr> psc_RunAsUser = None, psc_RunAsNonRoot = None,
              psc_SeccompProfile = Some ''RuntimeDefault'' \<rparr>)"
  using assms
  by (simp add: getSecurityContextForProfile_def SeccompProfileTypeRuntimeDefault_def)

theorem resolve_unrecognized_is_general_witness:
  "''restrictd'' \<notin> {''restricted'', ''baseline'', ''general'', ''privileged''}
   \<and> getSecurityContextForProfile ''restrictd'' = getSecurityContextForProfile ''general''
   \<and> sc_RunAsUser (fst (getSecurityContextForProfile ''restrictd'')) = None"
  using resolve_unrecognized_is_general [of "''restrictd''"]
  by (simp add: getSecurityContextForProfile_def)

text \<open>
  C6. The container policy resolved for profile restricted has privilege escalation
  disabled, all capabilities dropped, run-as-non-root enforced and the fixed non-zero user
  id 1000; the container policy resolved for profile privileged has privilege escalation
  enabled, all capabilities added and the seccomp type unconfined.
\<close>

theorem resolve_restricted_and_privileged:
  "(let c = fst (getSecurityContextForProfile ''restricted'') in
      sc_AllowPrivilegeEscalation c = Some False
    \<and> sc_Capabilities c = Some \<lparr> cap_Add = [], cap_Drop = [''ALL''] \<rparr>
    \<and> sc_RunAsNonRoot c = Some True
    \<and> sc_RunAsUser c = Some 1000 \<and> (1000::int) \<noteq> 0)
 \<and> (let c = fst (getSecurityContextForProfile ''privileged'') in
      sc_AllowPrivilegeEscalation c = Some True
    \<and> sc_Capabilities c = Some \<lparr> cap_Add = [''ALL''], cap_Drop = [] \<rparr>
    \<and> sc_SeccompProfile c = Some ''Unconfined'')"
  by (simp add: getSecurityContextForProfile_def SeccompProfileTypeUnconfined_def)

section \<open>Reclamation filter\<close>








section \<open>Session locator\<close>

lemma strings_TrimSpace_blank: "list_all isSpace l \<Longrightarrow> strings_TrimSpace l = []"
proof -
  assume "list_all isSpace l"
  then have "dropWhile isSpace l = []"
    by (induction l) simp_all
  then show ?thesis
    unfolding strings_TrimSpace_def by (simp only: rev.simps dropWhile.simps)
qed

lemma strings_Split_lines_blank:
  "list_all isSpace s \<Longrightarrow> list_all (list_all isSpace) (strings_Split_lines s)"
  by (induction s) (auto split: list.splits)

lemma firstNonEmptyLine_blank:
  "list_all (list_all isSpace) ls \<Longrightarrow> firstNonEmptyLine ls = []"
  by (induction ls) (simp_all add: strings_TrimSpace_blank)

text \<open>
  C8. Both locator queries (\<open>getDebugPods\<close> of list and clean, \<open>findExistingDebugPod\<close> of
  the collision check) turn the "no resources found" response of kubectl into a success
  with zero records: the response the code tests for, a failed command whose standard
  error contains "No resources found", and the response of an empty cluster, a command
  that succeeds and prints a list of zero items (for the JSON query) or nothing but white
  space (for the name query). "Zero records" is the empty list, and for
  \<open>findExistingDebugPod\<close> the empty name, which its caller reads as "no prior session".
\<close>

theorem locator_no_resources_is_empty:
  "(res_err (kubectl e tr (getDebugPods_cmd g)) \<noteq> None
      \<and> strings_Contains (res_stderr (kubectl e tr (getDebugPods_cmd g))) ''No resources found''
    \<longrightarrow> fst (getDebugPods e g tr) = Inr [])
 \<and> (res_err (kubectl e tr (getDebugPods_cmd g)) = None
      \<and> json_Unmarshal_PodList e (res_stdout (kubectl e tr (getDebugPods_cmd g))) = Inr []
    \<longrightarrow> fst (getDebugPods e g tr) = Inr [])
 \<and> (res_err (kubectl e tr (findExistingDebugPod_cmd config)) \<noteq> None
      \<and> strings_Contains (res_stderr (kubectl e tr (findExistingDebugPod_cmd config))) ''No resources found''
    \<longrightarrow> fst (findExistingDebugPod e config tr) = Inr [])
 \<and> (res_err (kubectl e tr (findExistingDebugPod_cmd config)) = None
      \<and> list_all isSpace (res_stdout (kubectl e tr (findExistingDebugPod_cmd config)))
    \<longrightarrow> fst (findExistingDebugPod e config tr) = Inr [])"
  by (auto simp: getDebugPods_def findExistingDebugPod_def ExecCommand_Run_def
        strings_Split_lines_blank firstNonEmptyLine_blank)

theorem locator_no_resources_is_empty_witness:
  "(let e = quietEnv \<lparr> kubectl := (\<lambda>tr c.
            \<lparr> res_err = Some (ExitError 1 ''exit status 1''), res_stdout = [],
              res_stderr = ''No resources found in default namespace.'' \<rparr>) \<rparr>
    in res_err (kubectl e [] (getDebugPods_cmd exampleGlobals)) \<noteq> None
     \<and> strings_Contains (res_stderr (kubectl e [] (getDebugPods_cmd exampleGlobals))) ''No resources found''
     \<and> getDebugPods e exampleGlobals [] = (Inr [], [Exec (getDebugPods_cmd exampleGlobals)])
     \<and> res_err (kubectl e [] (findExistingDebugPod_cmd exampleConfig)) \<noteq> None
     \<and> findExistingDebugPod e exampleConfig [] = (Inr [], [Exec (findExistingDebugPod_cmd exampleConfig)]))
 \<and> (let e = quietEnv \<lparr> kubectl := (\<lambda>tr c. \<lparr> res_err = None, res_stdout = [CHR 0x0A], res_stderr = [] \<rparr>),
                        json_Unmarshal_PodList := (\<lambda>s. Inr []) \<rparr>
    in res_err (kubectl e [] (getDebugPods_cmd exampleGlobals)) = None
     \<and> json_Unmarshal_PodList e (res_stdout (kubectl e [] (getDebugPods_cmd exampleGlobals))) = Inr []
     \<and> getDebugPods e exampleGlobals [] = (Inr [], [Exec (getDebugPods_cmd exampleGlobals)])
     \<and> list_all isSpace (res_stdout (kubectl e [] (findExistingDebugPod_cmd exampleConfig)))
     \<and> findExistingDebugPod e exampleConfig [] = (Inr [], [Exec (findExistingDebugPod_cmd exampleConfig)]))"
  using
    locator_no_resources_is_empty [where g = exampleGlobals and config = exampleConfig and tr = "[]" and e =
      "quietEnv \<lparr> kubectl := (\<lambda>tr c.
            \<lparr> res_err = Some (ExitError 1 ''exit status 1''), res_stdout = [],
              res_stderr = ''No resources found in default namespace.'' \<rparr>) \<rparr>"]
    locator_no_resources_is_empty [where g = exampleGlobals and config = exampleConfig and tr = "[]" and e =
      "quietEnv \<lparr> kubectl := (\<lambda>tr c. \<lparr> res_err = None, res_stdout = [CHR 0x0A], res_stderr = [] \<rparr>),
                        json_Unmarshal_PodList := (\<lambda>s. Inr []) \<rparr>"]
  by (simp add: Let_def quietEnv_def getDebugPods_def findExistingDebugPod_def ExecCommand_Run_def
        strings_HasPrefix_def isSpace_def strings_TrimSpace_def)

section \<open>Standalone sessions\<close>

lemma issued_append [simp]: "issued tr (tr @ new) = new"
  by (simp add: issued_def)

lemma isGet_kubectl_get [simp]: "isGet (Exec (kubectl_cmd (''get'' # args)))"
  by (simp add: kubectl_cmd_def)

lemma isGet_not_isDelete: "isGet ev \<Longrightarrow> \<not> isDelete ev"
  by (cases ev) (auto simp: isDelete_def split: list.splits)

lemma isGet_not_isCreate: "isGet ev \<Longrightarrow> \<not> isCreate ev"
  by (cases ev) (auto simp: isCreate_def split: list.splits)

lemma manifests_append: "manifests (xs @ ys) = manifests xs @ manifests ys"
  by (induction xs rule: manifests.induct) (simp_all split: option.splits)

lemma manifests_gets: "list_all isGet evs \<Longrightarrow> manifests evs = []"
  by (induction evs rule: manifests.induct) (simp_all split: option.splits)

lemma getTargetPodSecurityContext_trace:
  "\<exists>new. snd (getTargetPodSecurityContext e config tr) = tr @ new \<and> list_all isGet new"
  by (simp add: getTargetPodSecurityContext_def ExecCommand_Run_def kubectl_cmd_def split: option.splits sum.splits)

lemma getTargetPodLabels_trace:
  "\<exists>new. snd (getTargetPodLabels e config tr) = tr @ new \<and> list_all isGet new"
  by (simp add: getTargetPodLabels_def ExecCommand_Run_def kubectl_cmd_def split: option.splits sum.splits)

lemma getDeploymentSelectors_trace:
  "\<exists>new. snd (getDeploymentSelectors e config tr) = tr @ new \<and> list_all isGet new"
  by (simp add: getDeploymentSelectors_def ExecCommand_Run_def kubectl_cmd_def Let_def split: option.splits sum.splits)

lemma createDebugPod_build_trace:
  "createDebugPod_build e config debugPodName targetContext share labels tr = (Panicked, tr)
 \<or> (\<exists>memoryLimit cpuRequest memoryRequest r.
       createDebugPod_build e config debugPodName targetContext share labels tr =
         (Returned r,
          tr @ [Exec (apply_cmd (debugPodManifest config debugPodName
                  (case targetContext of
                     None \<Rightarrow> snd (getSecurityContextForProfile (Profile config))
                   | Some sc \<Rightarrow> sc)
                  share (labels(''debug-tool/type'' \<mapsto> ''debug-pod''))
                  memoryLimit cpuRequest memoryRequest))])
     \<and> (r = Inr debugPodName \<or> (\<exists>err. r = Inl err)))"
  by (auto simp: createDebugPod_build_def ExecCommand_Run_def Let_def split: option.splits)

lemma debugPodManifest_sel [simp]:
  "pod_AutomountServiceAccountToken (debugPodManifest config n psc share labels ml cr mr) = Some False"
  "pod_TerminationGracePeriodSeconds (debugPodManifest config n psc share labels ml cr mr) = Some 0"
  "pod_Labels (debugPodManifest config n psc share labels ml cr mr) = labels"
  "pod_Name (debugPodManifest config n psc share labels ml cr mr) = n"
  "pod_ShareProcessNamespace (debugPodManifest config n psc share labels ml cr mr) = share"
  "pod_SecurityContext (debugPodManifest config n psc share labels ml cr mr) = Some psc"
  by (simp_all add: debugPodManifest_def Let_def)

lemma createDebugPod_build_shape:
  "createDebugPod_build e config n targetContext share labels tr = (Panicked, tr)
 \<or> (\<exists>pod r. createDebugPod_build e config n targetContext share labels tr =
                (Returned r, tr @ [Exec (apply_cmd pod)])
        \<and> (r = Inr n \<or> (\<exists>err. r = Inl err))
        \<and> pod_AutomountServiceAccountToken pod = Some False
        \<and> pod_TerminationGracePeriodSeconds pod = Some 0
        \<and> pod_Labels pod = labels(''debug-tool/type'' \<mapsto> ''debug-pod'')
        \<and> pod_Name pod = n
        \<and> pod_ShareProcessNamespace pod = share)"
  using createDebugPod_build_trace [of e config n targetContext share labels tr]
proof
  assume "createDebugPod_build e config n targetContext share labels tr = (Panicked, tr)"
  then show ?thesis ..
next
  assume "\<exists>memoryLimit cpuRequest memoryRequest r.
       createDebugPod_build e config n targetContext share labels tr =
         (Returned r,
          tr @ [Exec (apply_cmd (debugPodManifest config n
                  (case targetContext of
                     None \<Rightarrow> snd (getSecurityContextForProfile (Profile config))
                   | Some sc \<Rightarrow> sc)
                  share (labels(''debug-tool/type'' \<mapsto> ''debug-pod''))
                  memoryLimit cpuRequest memoryRequest))])
     \<and> (r = Inr n \<or> (\<exists>err. r = Inl err))"
  then obtain pod r where
    "createDebugPod_build e config n targetContext share labels tr = (Returned r, tr @ [Exec (apply_cmd pod)])"
    "r = Inr n \<or> (\<exists>err. r = Inl err)"
    "pod_AutomountServiceAccountToken pod = Some False"
    "pod_TerminationGracePeriodSeconds pod = Some 0"
    "pod_Labels pod = labels(''debug-tool/type'' \<mapsto> ''debug-pod'')"
    "pod_Name pod = n"
    "pod_ShareProcessNamespace pod = share"
    by (elim exE conjE) (rule that, assumption+, simp_all)
  then show ?thesis
    by blast
qed

text \<open>The shape of every run of \<open>createDebugPod\<close>: queries, then either a panic or one applied manifest.\<close>

lemma createDebugPod_trace:
  "\<exists>gets. list_all isGet gets \<and>
     (createDebugPod e config tr = (Panicked, tr @ gets)
      \<or> (\<exists>pod r. createDebugPod e config tr = (Returned r, tr @ gets @ [Exec (apply_cmd pod)])
            \<and> (r = Inr (generateUniqueName e config) \<or> (\<exists>err. r = Inl err))
            \<and> pod_AutomountServiceAccountToken pod = Some False
            \<and> pod_TerminationGracePeriodSeconds pod = Some 0
            \<and> pod_Labels pod ''debug-tool/type'' = Some ''debug-pod''
            \<and> pod_Name pod = generateUniqueName e config))"
proof (cases "PodName config = []")
  case True
  let ?n = "generateUniqueName e config"
  let ?l = "[''debug-tool/type'' \<mapsto> ''debug-pod'']"
  have run: "createDebugPod e config tr = createDebugPod_build e config ?n None None ?l tr"
    using True by (simp add: createDebugPod_def Let_def)
  from createDebugPod_build_shape [of e config ?n None None ?l tr] run
  show ?thesis
    by (intro exI [of _ "[]"]) auto
next
  case False
  let ?n = "generateUniqueName e config"
  obtain g1 where g1: "snd (getTargetPodSecurityContext e config tr) = tr @ g1" "list_all isGet g1"
    using getTargetPodSecurityContext_trace by blast
  obtain g2 where g2: "snd (getTargetPodLabels e config (tr @ g1)) = tr @ g1 @ g2" "list_all isGet g2"
    using getTargetPodLabels_trace [of e config "tr @ g1"] by auto
  obtain g3 where g3: "snd (getDeploymentSelectors e config (tr @ g1 @ g2)) = tr @ g1 @ g2 @ g3" "list_all isGet g3"
    using getDeploymentSelectors_trace [of e config "tr @ g1 @ g2"] by auto
  define labels1 where "labels1 =
    (case fst (getTargetPodLabels e config (tr @ g1)) of
       Inl err \<Rightarrow> Some [''debug-tool/type'' \<mapsto> ''debug-pod'']
     | Inr l \<Rightarrow> l)"
  show ?thesis
  proof (cases labels1)
    case None
    have "createDebugPod e config tr = (Panicked, tr @ g1 @ g2)"
      using False None g1 g2 by (simp add: createDebugPod_def Let_def split_def labels1_def)
    with g1 g2 show ?thesis
      by (intro exI [of _ "g1 @ g2"]) simp
  next
    case (Some labels2)
    then obtain targetContext labels4 where
      run: "createDebugPod e config tr =
              createDebugPod_build e config ?n targetContext (Some True) labels4 (tr @ g1 @ g2 @ g3)"
      using False g1 g2 g3 by (simp add: createDebugPod_def Let_def split_def labels1_def)
    from createDebugPod_build_shape [of e config ?n targetContext "Some True" labels4 "tr @ g1 @ g2 @ g3"] run g1 g2 g3
    show ?thesis
      by (intro exI [of _ "g1 @ g2 @ g3"]) auto
  qed
qed


lemma manifests_gets_apply: "list_all isGet gets \<Longrightarrow> manifests (gets @ [Exec (apply_cmd pod)]) = [pod]"
  by (simp add: manifests_append manifests_gets apply_cmd_def)

text \<open>
  C10. Every pod manifest \<open>createDebugPod\<close> hands to \<open>kubectl apply\<close> has service-account
  token automounting disabled and a termination grace period of zero seconds, whatever the
  profile, the image, the interactivity flags and the answers of the cluster; a run that
  returns a pod name has applied exactly one manifest.
\<close>

theorem createDebugPod_manifest_flags:
  "\<exists>new. snd (createDebugPod e config tr) = tr @ new
      \<and> (\<forall>pod \<in> set (manifests new).
            pod_AutomountServiceAccountToken pod = Some False
          \<and> pod_TerminationGracePeriodSeconds pod = Some 0)
      \<and> ((\<exists>name. fst (createDebugPod e config tr) = Returned (Inr name)) \<longrightarrow> length (manifests new) = 1)"
proof -
  from createDebugPod_trace [of e config tr] obtain gets where
    gets: "list_all isGet gets"
    and run: "createDebugPod e config tr = (Panicked, tr @ gets)
      \<or> (\<exists>pod r. createDebugPod e config tr = (Returned r, tr @ gets @ [Exec (apply_cmd pod)])
            \<and> pod_AutomountServiceAccountToken pod = Some False
            \<and> pod_TerminationGracePeriodSeconds pod = Some 0)"
    by blast
  from run show ?thesis
  proof
    assume "createDebugPod e config tr = (Panicked, tr @ gets)"
    with gets show ?thesis
      by (intro exI [of _ gets]) (simp add: manifests_gets)
  next
    assume "\<exists>pod r. createDebugPod e config tr = (Returned r, tr @ gets @ [Exec (apply_cmd pod)])
            \<and> pod_AutomountServiceAccountToken pod = Some False
            \<and> pod_TerminationGracePeriodSeconds pod = Some 0"
    then obtain pod r where
      "createDebugPod e config tr = (Returned r, tr @ gets @ [Exec (apply_cmd pod)])"
      "pod_AutomountServiceAccountToken pod = Some False"
      "pod_TerminationGracePeriodSeconds pod = Some 0"
      by blast
    with gets show ?thesis
      by (intro exI [of _ "gets @ [Exec (apply_cmd pod)]"]) (simp add: manifests_gets_apply)
  qed
qed


theorem createDebugPod_manifest_flags_witness:
  "fst (createDebugPod quietEnv exampleConfig []) = Returned (Inr ''debug-120000-0042'')
 \<and> map pod_AutomountServiceAccountToken (manifests (snd (createDebugPod quietEnv exampleConfig []))) = [Some False]
 \<and> map pod_TerminationGracePeriodSeconds (manifests (snd (createDebugPod quietEnv exampleConfig []))) = [Some 0]"
  using createDebugPod_manifest_flags [of quietEnv exampleConfig "[]"]
  by (simp add: createDebugPod_def createDebugPod_build_def generateUniqueName_def quietEnv_def
        exampleConfig_def quietResult_def ExecCommand_Run_def apply_cmd_def Let_def fmt_04d_def digit_def)

lemma waitForPod_loop_trace:
  "\<exists>m\<le>k. snd (waitForPod_loop e config n k tr) = tr @ replicate m (Exec (podPhaseCmd config n))
        \<and> (fst (waitForPod_loop e config n k tr) \<noteq> None \<longrightarrow> m = k)"
proof (induction k arbitrary: tr)
  case 0
  show ?case by simp
next
  case (Suc k)
  let ?c = "podPhaseCmd config n"
  from Suc [of "tr @ [Exec ?c]"] obtain m where
    m: "m \<le> k" "snd (waitForPod_loop e config n k (tr @ [Exec ?c])) = tr @ [Exec ?c] @ replicate m (Exec ?c)"
      "fst (waitForPod_loop e config n k (tr @ [Exec ?c])) \<noteq> None \<longrightarrow> m = k"
    by auto
  show ?case
  proof (cases "res_err (kubectl e tr ?c) = None \<and> res_stdout (kubectl e tr ?c) = ''Running''")
    case True
    then show ?thesis
      by (intro exI [of _ "Suc 0"]) (simp add: ExecCommand_Run_def)
  next
    case False
    with m show ?thesis
      by (intro exI [of _ "Suc m"]) (auto simp: ExecCommand_Run_def)
  qed
qed

lemma isGet_podPhaseCmd: "isGet (Exec (podPhaseCmd config n))"
  by (simp add: podPhaseCmd_def kubectl_cmd_def)

lemma waitForPod_loop_never_running:
  assumes "\<forall>h. \<not> (res_err (kubectl e h (podPhaseCmd config n)) = None
                  \<and> res_stdout (kubectl e h (podPhaseCmd config n)) = ''Running'')"
  shows "fst (waitForPod_loop e config n k tr) \<noteq> None"
  using assms by (induction k arbitrary: tr) (auto simp: ExecCommand_Run_def)

lemma errorTypeOf_timeout: "errorTypeOf (WithOriginalError (NewTimeoutError operation timeout) err) = Some ErrorTypeTimeout"
  by (simp add: NewTimeoutError_def NewDetailedError_def)

text \<open>
  C9. When the readiness wait of an interactive standalone session exhausts its attempts
  (\<open>waitForPod\<close> returns its error), \<open>executeStandalone\<close> returns a timeout error and the
  created pod is not deleted: after the creation the operation has run nothing but the
  \<open>maxAttempts\<close> phase queries (and armed the signal handler when removal was requested),
  and no command of the whole operation is a deletion, also when \<open>RemoveAfter\<close> is set.
\<close>

theorem executeStandalone_timeout_keeps_pod:
  assumes "Interactive config" and "TTY config"
    and "createDebugPod e config tr = (Returned (Inr debugPodName), tr1)"
    and "fst (waitForPod e config debugPodName
               (if RemoveAfter config then setupSignalHandler debugPodName tr1 else tr1)) \<noteq> None"
  shows "\<exists>err tr'. executeStandalone e config tr = (Returned (Some err), tr')
      \<and> errorTypeOf err = Some ErrorTypeTimeout
      \<and> tr' = tr1 @ (if RemoveAfter config then [SignalHandler debugPodName] else [])
                 @ replicate maxAttempts (Exec (podPhaseCmd config debugPodName))
      \<and> (\<forall>ev \<in> set (issued tr tr'). \<not> isDelete ev)"
proof -
  define tr2 where "tr2 = (if RemoveAfter config then setupSignalHandler debugPodName tr1 else tr1)"
  let ?c = "podPhaseCmd config debugPodName"
  from assms(4) obtain err where err: "fst (waitForPod e config debugPodName tr2) = Some err"
    by (auto simp: tr2_def)
  from waitForPod_loop_trace [of maxAttempts e config debugPodName tr2] err
  have "snd (waitForPod e config debugPodName tr2) = tr2 @ replicate maxAttempts (Exec ?c)"
    by (auto simp: waitForPod_def)
  with err have w: "waitForPod e config debugPodName tr2 = (Some err, tr2 @ replicate maxAttempts (Exec ?c))"
    by (simp add: prod_eq_iff)
  have run: "executeStandalone e config tr =
      (Returned (Some (WithOriginalError (NewTimeoutError ''pod ready'' ''30s'') err)),
       tr2 @ replicate maxAttempts (Exec ?c))"
    using assms(1,2)
    by (simp add: executeStandalone_def assms(3) Let_def tr2_def [symmetric] w)
  from createDebugPod_trace [of e config tr] assms(3) obtain gets pod where
    tr1: "tr1 = tr @ gets @ [Exec (apply_cmd pod)]" and gets: "list_all isGet gets"
    by auto
  have tr2: "tr2 = tr1 @ (if RemoveAfter config then [SignalHandler debugPodName] else [])"
    by (simp add: tr2_def setupSignalHandler_def)
  have nodel: "\<forall>ev \<in> set (gets @ [Exec (apply_cmd pod)]
                 @ (if RemoveAfter config then [SignalHandler debugPodName] else [])
                 @ replicate maxAttempts (Exec ?c)). \<not> isDelete ev"
  proof -
    have "\<not> isDelete (Exec ?c)"
      by (rule isGet_not_isDelete) (rule isGet_podPhaseCmd)
    moreover have "\<forall>ev \<in> set gets. \<not> isDelete ev"
      using gets by (simp add: list_all_iff isGet_not_isDelete)
    moreover have "\<not> isDelete (Exec (apply_cmd pod))" "\<not> isDelete (SignalHandler debugPodName)"
      by (simp_all add: isDelete_def apply_cmd_def)
    ultimately show ?thesis
      by auto
  qed
  have "issued tr (tr2 @ replicate maxAttempts (Exec ?c)) =
          gets @ [Exec (apply_cmd pod)]
            @ (if RemoveAfter config then [SignalHandler debugPodName] else [])
            @ replicate maxAttempts (Exec ?c)"
    by (simp add: tr1 tr2 issued_def)
  with nodel run tr2 show ?thesis
    by (simp add: errorTypeOf_timeout)
qed


lemma waitForPod_never_running:
  assumes "\<forall>h. \<not> (res_err (kubectl e h (podPhaseCmd config n)) = None
                  \<and> res_stdout (kubectl e h (podPhaseCmd config n)) = ''Running'')"
  shows "fst (waitForPod e config n tr) \<noteq> None"
  using assms by (simp add: waitForPod_def waitForPod_loop_never_running)

theorem executeStandalone_timeout_keeps_pod_witness:
  "(let config = exampleConfig \<lparr> Interactive := True, TTY := True, RemoveAfter := True \<rparr>;
        tr1 = snd (createDebugPod quietEnv config [])
    in Interactive config \<and> TTY config \<and> RemoveAfter config
     \<and> createDebugPod quietEnv config [] = (Returned (Inr ''debug-120000-0042''), tr1)
     \<and> fst (waitForPod quietEnv config ''debug-120000-0042''
              (setupSignalHandler ''debug-120000-0042'' tr1)) \<noteq> None
     \<and> (\<exists>err. fst (executeStandalone quietEnv config []) = Returned (Some err)
              \<and> errorTypeOf err = Some ErrorTypeTimeout)
     \<and> snd (executeStandalone quietEnv config []) =
         tr1 @ [SignalHandler ''debug-120000-0042'']
             @ replicate maxAttempts (Exec (podPhaseCmd config ''debug-120000-0042''))
     \<and> filter isDelete (snd (executeStandalone quietEnv config [])) = [])"
proof -
  define config where "config = exampleConfig \<lparr> Interactive := True, TTY := True, RemoveAfter := True \<rparr>"
  define tr1 where "tr1 = snd (createDebugPod quietEnv config [])"
  have flags: "Interactive config" "TTY config" "RemoveAfter config"
    by (simp_all add: config_def)
  have "fst (createDebugPod quietEnv config []) = Returned (Inr ''debug-120000-0042'')"
    by (simp add: config_def createDebugPod_def createDebugPod_build_def generateUniqueName_def quietEnv_def
        exampleConfig_def quietResult_def ExecCommand_Run_def Let_def fmt_04d_def digit_def)
  then have created: "createDebugPod quietEnv config [] = (Returned (Inr ''debug-120000-0042''), tr1)"
    by (simp add: tr1_def prod_eq_iff)
  have "fst (waitForPod quietEnv config ''debug-120000-0042'' tr) \<noteq> None" for tr
    by (rule waitForPod_never_running) (simp add: quietEnv_def quietResult_def)
  then have timeout: "fst (waitForPod quietEnv config ''debug-120000-0042''
      (if RemoveAfter config then setupSignalHandler ''debug-120000-0042'' tr1 else tr1)) \<noteq> None"
    by blast
  from executeStandalone_timeout_keeps_pod [OF flags(1) flags(2) created timeout]
  obtain err tr' where
    run: "executeStandalone quietEnv config [] = (Returned (Some err), tr')"
    and err: "errorTypeOf err = Some ErrorTypeTimeout"
    and tr': "tr' = tr1 @ (if RemoveAfter config then [SignalHandler ''debug-120000-0042''] else [])
                 @ replicate maxAttempts (Exec (podPhaseCmd config ''debug-120000-0042''))"
    and nodel: "\<forall>ev \<in> set (issued [] tr'). \<not> isDelete ev"
    by blast
  from nodel have "filter isDelete tr' = []"
    by (simp add: issued_def filter_empty_conv)
  with flags created timeout run err tr' show ?thesis
    unfolding Let_def config_def [symmetric] tr1_def [symmetric] by simp
qed

section \<open>Collision check\<close>










section \<open>Deleting sessions\<close>



lemma isDelete_deletePod_cmd [simp]: "isDelete (Exec (deletePod_cmd n ns))"
  by (simp add: isDelete_def deletePod_cmd_def kubectl_cmd_def)

lemma isDelete_Print [simp]: "\<not> isDelete (Print text)"
  by (simp add: isDelete_def)








section \<open>Session labels\<close>

text \<open>Every manifest \<open>createDebugPod\<close> applies carries the discovery label.\<close>

lemma createDebugPod_discovery_label:
  "\<forall>pod \<in> set (manifests (issued tr (snd (createDebugPod e config tr)))).
      pod_Labels pod ''debug-tool/type'' = Some ''debug-pod''"
proof -
  from createDebugPod_trace [of e config tr] obtain gets where
    gets: "list_all isGet gets"
    and run: "createDebugPod e config tr = (Panicked, tr @ gets)
      \<or> (\<exists>pod r. createDebugPod e config tr = (Returned r, tr @ gets @ [Exec (apply_cmd pod)])
            \<and> pod_Labels pod ''debug-tool/type'' = Some ''debug-pod'')"
    by blast
  from run show ?thesis
  proof
    assume "createDebugPod e config tr = (Panicked, tr @ gets)"
    with gets show ?thesis
      by (simp add: manifests_gets)
  next
    assume "\<exists>pod r. createDebugPod e config tr = (Returned r, tr @ gets @ [Exec (apply_cmd pod)])
            \<and> pod_Labels pod ''debug-tool/type'' = Some ''debug-pod''"
    then obtain pod r where
      "createDebugPod e config tr = (Returned r, tr @ gets @ [Exec (apply_cmd pod)])"
      "pod_Labels pod ''debug-tool/type'' = Some ''debug-pod''"
      by blast
    with gets show ?thesis
      by (simp add: manifests_gets_apply)
  qed
qed

text \<open>
  C2, at a pod copy. The manifests \<open>createDebugPod\<close> builds carry the discovery label (a
  standalone pod, without target, carries it alone). A pod copy is not built that way:
  \<open>createPodCopy\<close> hands the target to \<open>kubectl debug --copy-to\<close>, whose arguments name no
  label, and applies no manifest; the program sets neither the discovery label nor the
  target label on the copy, although \<open>findExistingDebugPod\<close> and \<open>getDebugPods\<close> look
  sessions up by these labels.
\<close>

theorem pod_copy_is_created_without_labels:
  "(let config = NewDebugConfigFromFlags (webConfig \<lparr> CopyPod := True, Force := True \<rparr>); e = clusterEnv
    in Execute e config [] =
         (Returned None,
          [Exec (verifyTargetPod_cmd config),
           Exec (kubectl_cmd [''get'', ''pod'', ''web'', ''-n'', ''default'', ''-o'', ''json'']),
           Exec (kubectl_cmd [''debug'', ''web'', ''-n'', ''default'', ''--image'', ''debug:latest'',
                              ''--share-processes'', ''--copy-to=debug-web-120000-0042'',
                              ''--custom=/tmp/debug-custom-1.yaml'', ''--profile=general'', ''-i'', ''-t'', ''--''])])
     \<and> manifests (snd (Execute e config [])) = []
     \<and> map (\<lambda>pod. (pod_Labels pod ''debug-tool/type'', pod_Labels pod ''debug-tool/target''))
          (manifests (snd (createDebugPod e (exampleConfig \<lparr> Profile := ''restricted'' \<rparr>) [])))
        = [(Some ''debug-pod'', None)])"
  by (simp add: Let_def NewDebugConfigFromFlags_def webConfig_def exampleConfig_def clusterEnv_def quietEnv_def clusterAnswer_def
        Execute_def executeCopyPod_def createPodCopy_def verifyTargetPod_def verifyTargetPod_cmd_def
        getTargetPodSecurityContext_def targetPod_def generateUniqueName_def fmt_04d_def digit_def
        ExecCommand_Run_def kubectl_cmd_def
        createDebugPod_def createDebugPod_build_def apply_cmd_def debugPodManifest_def)

text \<open>
  C4, at the example of the specification: target labels \<open>{app: x, pod-template-hash: abc}\<close>
  and deployment selector \<open>{app: x}\<close>. The derivation the claim describes is what the
  target branch of \<open>createDebugPod\<close> computes (the labels of its manifest are
  \<open>pod-template-hash\<close> and the two discovery labels, without \<open>app\<close>), but copy mode does not
  run it: \<open>createPodCopy\<close> reads neither the target's labels nor the deployment's selector
  and passes no label to \<open>kubectl debug\<close>.
\<close>

theorem pod_copy_labels_not_derived:
  "(let config = NewDebugConfigFromFlags (webConfig \<lparr> CopyPod := True, Force := True \<rparr>); e = clusterEnv
    in fst (getTargetPodLabels e config []) = Inr (Some [''app'' \<mapsto> ''x'', ''pod-template-hash'' \<mapsto> ''abc''])
     \<and> fst (getDeploymentSelectors e config []) = Inr (Some [''app'' \<mapsto> ''x''])
     \<and> createPodCopy e config [] =
         (None,
          [Exec (kubectl_cmd [''get'', ''pod'', ''web'', ''-n'', ''default'', ''-o'', ''json'']),
           Exec (kubectl_cmd [''debug'', ''web'', ''-n'', ''default'', ''--image'', ''debug:latest'',
                              ''--share-processes'', ''--copy-to=debug-web-120000-0042'',
                              ''--custom=/tmp/debug-custom-1.yaml'', ''--profile=general'', ''-i'', ''-t'', ''--''])])
     \<and> map pod_Labels (manifests (snd (createDebugPod e config []))) =
         [[''pod-template-hash'' \<mapsto> ''abc'', ''debug-tool/target'' \<mapsto> ''web'', ''debug-tool/type'' \<mapsto> ''debug-pod'']])"
  by (simp add: Let_def NewDebugConfigFromFlags_def webConfig_def exampleConfig_def clusterEnv_def quietEnv_def clusterAnswer_def
        createPodCopy_def getTargetPodLabels_def getDeploymentSelectors_def
        getTargetPodSecurityContext_def targetPod_def generateUniqueName_def fmt_04d_def digit_def
        ExecCommand_Run_def kubectl_cmd_def strings_TrimSpace_def isSpace_def
        createDebugPod_def createDebugPod_build_def apply_cmd_def debugPodManifest_def deleteKeys_def fun_eq_iff)

end
